theory Spec2Isabelle
  imports Main "HOL-Library.Sublist"
begin

section \<open>Errors of the trace package\<close>

text \<open>
  The Go code reports failures as values of the \<^verbatim>\<open>trace\<close> package. An error has a kind
  (not-found, access-denied, anything else), \<^verbatim>\<open>trace.Wrap\<close> puts a layer around an error,
  with an optional user message, and \<^verbatim>\<open>trace.NewAggregate\<close> collects several errors into
  one. The kind predicates look through the wrapping layers.
\<close>

datatype error =
    NotFoundError string
  | AccessDeniedError string
  | PlainError string
  | TraceErr error "string option"
  | Aggregate "error list"

definition Wrap :: "error \<Rightarrow> error" where
  "Wrap err = TraceErr err None"

text \<open>\<^verbatim>\<open>trace.Wrap(err, format, err)\<close>: the layer carries the format of the user message; at both
  call sites the argument of the format is the wrapped error itself.\<close>

definition WrapMsg :: "error \<Rightarrow> string \<Rightarrow> error" where
  "WrapMsg err fmt = TraceErr err (Some fmt)"

text \<open>\<^verbatim>\<open>trace.NewAggregate(errs...)\<close> for errors that are not nil.\<close>

definition NewAggregate :: "error list \<Rightarrow> error" where
  "NewAggregate errs = TraceErr (Aggregate errs) None"

fun IsNotFound :: "error \<Rightarrow> bool" where
  "IsNotFound (NotFoundError m) = True"
| "IsNotFound (TraceErr e m) = IsNotFound e"
| "IsNotFound e = False"

fun IsAccessDenied :: "error \<Rightarrow> bool" where
  "IsAccessDenied (AccessDeniedError m) = True"
| "IsAccessDenied (TraceErr e m) = IsAccessDenied e"
| "IsAccessDenied e = False"

text \<open>The underlying causes an error carries: the errors left once every wrapping layer
  and every aggregate is opened.\<close>

fun causes :: "error \<Rightarrow> error list" where
  "causes (TraceErr e m) = causes e"
| "causes (Aggregate es) = concat (map causes es)"
| "causes e = [e]"

section \<open>TunnelWithRoles\<close>

text \<open>
  \<^verbatim>\<open>RemoteSite\<close> is an interface of which the code reads \<^verbatim>\<open>GetName()\<close> only; the second
  field tells apart two sites of one name. \<^verbatim>\<open>types.RemoteCluster\<close> is the resource the
  lookup returns and the access check receives.
\<close>

record RemoteSite =
  GetName :: string
  site_conn :: nat

record RemoteCluster =
  rc_name :: string
  rc_labels :: "(string \<times> string) list"

text \<open>The wrapped tunnel: what \<^verbatim>\<open>tunnel.GetSites()\<close> and \<^verbatim>\<open>tunnel.GetSite(name)\<close> return.\<close>

record Tunnel =
  tunnel_GetSites :: "error + RemoteSite list"
  tunnel_GetSite :: "string \<Rightarrow> error + RemoteSite"

text \<open>
  The struct \<^verbatim>\<open>TunnelWithRoles\<close>. \<open>accessChecker\<close> is the method
  \<^verbatim>\<open>CheckAccessToRemoteCluster\<close> of the access checker (\<open>None\<close> is the nil error) and
  \<open>access\<close> is \<^verbatim>\<open>GetRemoteCluster\<close> of the cluster getter.
\<close>

record TunnelWithRoles =
  tunnel :: Tunnel
  localCluster :: string
  accessChecker :: "RemoteCluster \<Rightarrow> error option"
  access :: "string \<Rightarrow> error + RemoteCluster"

text \<open>The calls a method makes on its collaborators, in the order it makes them.\<close>

datatype TunnelCall =
    CallTunnelGetSites
  | CallTunnelGetSite string
  | CallGetRemoteCluster string
  | CallCheckAccessToRemoteCluster RemoteCluster
  | CallWarningf string
  | CallOpaqueAccessDenied error

text \<open>The body of the \<^verbatim>\<open>for\<close> loop of \<^verbatim>\<open>GetSites\<close>: the sites still to visit, the slice
  \<open>out\<close> built so far, and the calls made so far.\<close>

fun GetSites_loop ::
  "TunnelWithRoles \<Rightarrow> RemoteSite list \<Rightarrow> RemoteSite list \<Rightarrow> TunnelCall list
   \<Rightarrow> (error + RemoteSite list) \<times> TunnelCall list" where
  "GetSites_loop t [] out cs = (Inr out, cs)"
| "GetSites_loop t (cluster # rest) out cs =
     (if localCluster t = GetName cluster then GetSites_loop t rest (out @ [cluster]) cs
      else
        (case access t (GetName cluster) of
           Inl err \<Rightarrow>
             if \<not> IsNotFound err
             then (Inl (Wrap err), cs @ [CallGetRemoteCluster (GetName cluster)])
             else GetSites_loop t rest out
                    (cs @ [CallGetRemoteCluster (GetName cluster), CallWarningf (GetName cluster)])
         | Inr rc \<Rightarrow>
             (case accessChecker t rc of
                Some err \<Rightarrow>
                  if \<not> IsAccessDenied err
                  then (Inl (Wrap err),
                        cs @ [CallGetRemoteCluster (GetName cluster), CallCheckAccessToRemoteCluster rc])
                  else GetSites_loop t rest out
                         (cs @ [CallGetRemoteCluster (GetName cluster),
                                CallCheckAccessToRemoteCluster rc])
              | None \<Rightarrow>
                  GetSites_loop t rest (out @ [cluster])
                    (cs @ [CallGetRemoteCluster (GetName cluster),
                           CallCheckAccessToRemoteCluster rc]))))"

definition GetSites :: "TunnelWithRoles \<Rightarrow> (error + RemoteSite list) \<times> TunnelCall list" where
  "GetSites t =
     (case tunnel_GetSites (tunnel t) of
        Inl err \<Rightarrow> (Inl (Wrap err), [CallTunnelGetSites])
      | Inr clusters \<Rightarrow> GetSites_loop t clusters [] [CallTunnelGetSites])"

text \<open>
  \<^verbatim>\<open>GetSite\<close>. The helper \<^verbatim>\<open>utils.OpaqueAccessDenied\<close> is not part of the sources at hand,
  so it is the parameter \<open>opaque\<close>. The local-cluster test reads the name of the site the
  tunnel returned; the resource lookup uses the name the caller passed.
\<close>

definition GetSite ::
  "(error \<Rightarrow> error) \<Rightarrow> TunnelWithRoles \<Rightarrow> string \<Rightarrow> (error + RemoteSite) \<times> TunnelCall list" where
  "GetSite opaque t clusterName =
     (case tunnel_GetSite (tunnel t) clusterName of
        Inl err \<Rightarrow> (Inl (Wrap err), [CallTunnelGetSite clusterName])
      | Inr cluster \<Rightarrow>
          if localCluster t = GetName cluster
          then (Inr cluster, [CallTunnelGetSite clusterName])
          else
            (case access t clusterName of
               Inl err \<Rightarrow>
                 (Inl (Wrap err), [CallTunnelGetSite clusterName, CallGetRemoteCluster clusterName])
             | Inr rc \<Rightarrow>
                 (case accessChecker t rc of
                    Some err \<Rightarrow>
                      (Inl (opaque err),
                       [CallTunnelGetSite clusterName, CallGetRemoteCluster clusterName,
                        CallCheckAccessToRemoteCluster rc, CallOpaqueAccessDenied err])
                  | None \<Rightarrow>
                      (Inr cluster,
                       [CallTunnelGetSite clusterName, CallGetRemoteCluster clusterName,
                        CallCheckAccessToRemoteCluster rc]))))"

text \<open>
  The rules of the loop, one site at a time. A site is \<open>excluded\<close> when it is not the local
  cluster and either its resource lookup reports not-found or the access check on the
  resource found reports access-denied. The lookup \<open>lookup_failure\<close> or the access decision
  \<open>check_failure\<close> fails hard when it returns an error of any other kind.
\<close>

definition excluded :: "TunnelWithRoles \<Rightarrow> RemoteSite \<Rightarrow> bool" where
  "excluded t c =
     (localCluster t \<noteq> GetName c \<and>
      (case access t (GetName c) of
         Inl err \<Rightarrow> IsNotFound err
       | Inr rc \<Rightarrow> (case accessChecker t rc of Some err \<Rightarrow> IsAccessDenied err | None \<Rightarrow> False)))"

definition lookup_failure :: "TunnelWithRoles \<Rightarrow> RemoteSite \<Rightarrow> bool" where
  "lookup_failure t c =
     (localCluster t \<noteq> GetName c \<and>
      (case access t (GetName c) of Inl err \<Rightarrow> \<not> IsNotFound err | Inr rc \<Rightarrow> False))"

definition check_failure :: "TunnelWithRoles \<Rightarrow> RemoteSite \<Rightarrow> bool" where
  "check_failure t c =
     (localCluster t \<noteq> GetName c \<and>
      (case access t (GetName c) of
         Inl err \<Rightarrow> False
       | Inr rc \<Rightarrow> (case accessChecker t rc of Some err \<Rightarrow> \<not> IsAccessDenied err | None \<Rightarrow> False)))"

text \<open>The two conditions under which \<^verbatim>\<open>GetSites\<close> is said to fail: the enumeration of the
  wrapped tunnel fails, or the access decision fails hard on a site of the list.\<close>

definition enumeration_fails :: "TunnelWithRoles \<Rightarrow> bool" where
  "enumeration_fails t = isl (tunnel_GetSites (tunnel t))"

definition access_decision_fails :: "TunnelWithRoles \<Rightarrow> bool" where
  "access_decision_fails t =
     (case tunnel_GetSites (tunnel t) of
        Inl err \<Rightarrow> False
      | Inr clusters \<Rightarrow> list_ex (check_failure t) clusters)"

definition resource_lookup_fails :: "TunnelWithRoles \<Rightarrow> bool" where
  "resource_lookup_fails t =
     (case tunnel_GetSites (tunnel t) of
        Inl err \<Rightarrow> False
      | Inr clusters \<Rightarrow> list_ex (lookup_failure t) clusters)"

text \<open>Sample tunnels. The local cluster is \<open>''root''\<close>; the wrapped tunnel reports the local
  site and the remote site \<open>''leaf''\<close>.\<close>

definition root_site :: RemoteSite where
  "root_site = \<lparr>GetName = ''root'', site_conn = 0\<rparr>"

definition leaf_site :: RemoteSite where
  "leaf_site = \<lparr>GetName = ''leaf'', site_conn = 1\<rparr>"

definition east_site :: RemoteSite where
  "east_site = \<lparr>GetName = ''east'', site_conn = 2\<rparr>"

definition sample_tunnel :: Tunnel where
  "sample_tunnel =
     \<lparr>tunnel_GetSites = Inr [leaf_site, root_site, east_site],
      tunnel_GetSite = (\<lambda>n. if n = ''root'' then Inr root_site
                            else if n = ''leaf'' then Inr leaf_site
                            else if n = ''east'' then Inr east_site
                            else Inl (NotFoundError ''no such site''))\<rparr>"

definition deny_all :: "RemoteCluster \<Rightarrow> error option" where
  "deny_all rc = Some (AccessDeniedError ''access to cluster denied'')"

definition allow_all :: "RemoteCluster \<Rightarrow> error option" where
  "allow_all rc = None"

definition no_resources :: "string \<Rightarrow> error + RemoteCluster" where
  "no_resources n = Inl (NotFoundError ''remote cluster not found'')"

definition all_resources :: "string \<Rightarrow> error + RemoteCluster" where
  "all_resources n = Inr \<lparr>rc_name = n, rc_labels = []\<rparr>"

definition broken_store :: "string \<Rightarrow> error + RemoteCluster" where
  "broken_store n = Inl (PlainError ''backend unavailable'')"

text \<open>The remote cluster resources are gone (dangling sites) and the checker denies.\<close>

definition dangling_tunnel :: TunnelWithRoles where
  "dangling_tunnel =
     \<lparr>tunnel = sample_tunnel, localCluster = ''root'',
      accessChecker = deny_all, access = no_resources\<rparr>"

text \<open>The resources exist and the checker denies every one of them.\<close>

definition denied_tunnel :: TunnelWithRoles where
  "denied_tunnel =
     \<lparr>tunnel = sample_tunnel, localCluster = ''root'',
      accessChecker = deny_all, access = all_resources\<rparr>"

text \<open>The resources exist and the checker allows every one of them.\<close>

definition allowed_tunnel :: TunnelWithRoles where
  "allowed_tunnel =
     \<lparr>tunnel = sample_tunnel, localCluster = ''root'',
      accessChecker = allow_all, access = all_resources\<rparr>"

text \<open>The resource store fails with an error that is not not-found.\<close>

definition broken_store_tunnel :: TunnelWithRoles where
  "broken_store_tunnel =
     \<lparr>tunnel = sample_tunnel, localCluster = ''root'',
      accessChecker = allow_all, access = broken_store\<rparr>"

text \<open>The resources exist; the checker denies \<open>''east''\<close> and allows the rest.\<close>

definition deny_east :: "RemoteCluster \<Rightarrow> error option" where
  "deny_east rc =
     (if rc_name rc = ''east'' then Some (AccessDeniedError ''access to cluster denied'') else None)"

definition mixed_tunnel :: TunnelWithRoles where
  "mixed_tunnel =
     \<lparr>tunnel = sample_tunnel, localCluster = ''root'',
      accessChecker = deny_east, access = all_resources\<rparr>"

text \<open>An opaque helper that answers every error with one fixed access-denied error.\<close>

definition opaque_denied :: "error \<Rightarrow> error" where
  "opaque_denied err = AccessDeniedError ''access denied''"

section \<open>The auth client: Connect\<close>

text \<open>
  Handles of the values the code only passes along: a client, a dialer, a pool of CA
  certificates, a circuit breaker configuration, an MFA prompt constructor. A
  \<^verbatim>\<open>utils.NetAddr\<close> is kept in its text form, which is what both paths read.
\<close>

type_synonym Client = nat
type_synonym ContextDialer = nat
type_synonym CertPool = nat
type_synonym NetAddr = string

record tls_Config =
  RootCAs :: CertPool
  Certificates :: "nat list"

record ssh_ClientConfig =
  ssh_User :: string

text \<open>The struct \<^verbatim>\<open>Config\<close>. \<open>TLS\<close> and \<open>SSH\<close> are pointers, \<open>None\<close> is nil. The logger
  \<^verbatim>\<open>Log\<close> is taken to be present; its one use is recorded as a call.\<close>

record Config =
  TLS :: "tls_Config option"
  SSH :: "ssh_ClientConfig option"
  AuthServers :: "NetAddr list"
  CircuitBreakerConfig :: nat
  DialTimeout :: nat
  MFAPromptConstructor :: "nat option"
  Insecure :: bool

text \<open>\<^verbatim>\<open>apiclient.Config\<close>, the argument of \<^verbatim>\<open>auth.NewClient\<close>. A field the caller leaves out
  has Go's zero value.\<close>

record api_Config =
  api_Addrs :: "string list"
  api_Dialer :: "ContextDialer option"
  api_Credentials :: "tls_Config option list"
  api_CircuitBreakerConfig :: nat
  api_InsecureAddressDiscovery :: bool
  api_DialTimeout :: nat
  api_MFAPromptConstructor :: "nat option"

record webclient_Config =
  wc_ProxyAddr :: string
  wc_Insecure :: bool
  wc_Timeout :: nat

datatype Resolver = WebClientResolver webclient_Config | CachedResolver nat

record TunnelAuthDialerConfig =
  td_Resolver :: Resolver
  td_ClientConfig :: "ssh_ClientConfig option"
  td_InsecureSkipTLSVerify :: bool
  td_ClusterCAs :: CertPool

text \<open>
  The collaborators of \<^verbatim>\<open>Connect\<close>: \<^verbatim>\<open>auth.NewClient\<close>, the method \<^verbatim>\<open>Ping\<close> of a client
  (\<open>None\<close> is the nil error), \<^verbatim>\<open>reversetunnelclient.CachingResolver\<close> and
  \<^verbatim>\<open>reversetunnelclient.NewTunnelAuthDialer\<close>.
\<close>

record Collaborators =
  auth_NewClient :: "api_Config \<Rightarrow> error + Client"
  client_Ping :: "Client \<Rightarrow> error option"
  CachingResolver :: "Resolver \<Rightarrow> error + Resolver"
  NewTunnelAuthDialer :: "TunnelAuthDialerConfig \<Rightarrow> error + ContextDialer"

datatype AuthCall =
    CallDebugf "NetAddr list"
  | CallNewClient api_Config
  | CallPing Client
  | CallClose Client
  | CallWebClientResolver webclient_Config
  | CallCachingResolver Resolver
  | CallNewTunnelAuthDialer TunnelAuthDialerConfig

text \<open>The state the calls act on: the clients that were constructed and not closed, the
  most recent first, and the calls made so far.\<close>

record World =
  open_clients :: "Client list"
  calls :: "AuthCall list"

text \<open>What a function of this package comes back with: a client, an error value, or a
  run-time panic.\<close>

datatype 'a result = Ok 'a | Err error | Panic string

definition record_call :: "AuthCall \<Rightarrow> World \<Rightarrow> World" where
  "record_call c w = w\<lparr>calls := calls w @ [c]\<rparr>"

definition client_opened :: "Client \<Rightarrow> World \<Rightarrow> World" where
  "client_opened c w = w\<lparr>open_clients := c # open_clients w\<rparr>"

definition client_Close :: "Client \<Rightarrow> World \<Rightarrow> World" where
  "client_Close c w = w\<lparr>open_clients := remove1 c (open_clients w), calls := calls w @ [CallClose c]\<rparr>"

definition direct_api_Config :: "Config \<Rightarrow> api_Config" where
  "direct_api_Config cfg =
     \<lparr>api_Addrs = AuthServers cfg,
      api_Dialer = None,
      api_Credentials = [TLS cfg],
      api_CircuitBreakerConfig = CircuitBreakerConfig cfg,
      api_InsecureAddressDiscovery = Insecure cfg,
      api_DialTimeout = DialTimeout cfg,
      api_MFAPromptConstructor = MFAPromptConstructor cfg\<rparr>"

definition tunnel_api_Config :: "Config \<Rightarrow> ContextDialer \<Rightarrow> api_Config" where
  "tunnel_api_Config cfg dialer =
     \<lparr>api_Addrs = [],
      api_Dialer = Some dialer,
      api_Credentials = [TLS cfg],
      api_CircuitBreakerConfig = 0,
      api_InsecureAddressDiscovery = False,
      api_DialTimeout = 0,
      api_MFAPromptConstructor = MFAPromptConstructor cfg\<rparr>"

text \<open>The probe shared by both paths: \<^verbatim>\<open>Ping\<close>, and on failure \<^verbatim>\<open>Close\<close> before the error
  is returned.\<close>

definition ping_or_close :: "Collaborators \<Rightarrow> Client \<Rightarrow> World \<Rightarrow> Client result \<times> World" where
  "ping_or_close env c w =
     (case client_Ping env c of
        Some err \<Rightarrow> (Err (Wrap err), client_Close c (record_call (CallPing c) w))
      | None \<Rightarrow> (Ok c, record_call (CallPing c) w))"

definition connectViaAuthDirect :: "Collaborators \<Rightarrow> Config \<Rightarrow> World \<Rightarrow> Client result \<times> World" where
  "connectViaAuthDirect env cfg w =
     (case auth_NewClient env (direct_api_Config cfg) of
        Inl err \<Rightarrow> (Err (Wrap err), record_call (CallNewClient (direct_api_Config cfg)) w)
      | Inr directClient \<Rightarrow>
          ping_or_close env directClient
            (client_opened directClient (record_call (CallNewClient (direct_api_Config cfg)) w)))"

text \<open>
  \<^verbatim>\<open>connectViaProxyTunnel\<close>. \<^verbatim>\<open>cfg.AuthServers[0]\<close> panics on an empty slice, before any
  call is made; \<^verbatim>\<open>cfg.TLS.RootCAs\<close> panics on a nil \<^verbatim>\<open>cfg.TLS\<close>, while the configuration of
  the dialer is built.
\<close>

definition connectViaProxyTunnel :: "Collaborators \<Rightarrow> Config \<Rightarrow> World \<Rightarrow> Client result \<times> World" where
  "connectViaProxyTunnel env cfg w =
     (case AuthServers cfg of
        [] \<Rightarrow> (Panic ''index out of range [0] with length 0'', w)
      | proxyAddr # others \<Rightarrow>
          let wc = \<lparr>wc_ProxyAddr = proxyAddr, wc_Insecure = Insecure cfg, wc_Timeout = DialTimeout cfg\<rparr>;
              w1 = record_call (CallCachingResolver (WebClientResolver wc))
                     (record_call (CallWebClientResolver wc) w)
          in
          (case CachingResolver env (WebClientResolver wc) of
             Inl err \<Rightarrow> (Err (Wrap err), w1)
           | Inr resolver \<Rightarrow>
               (case TLS cfg of
                  None \<Rightarrow> (Panic ''invalid memory address or nil pointer dereference'', w1)
                | Some tlsConfig \<Rightarrow>
                    let dc = \<lparr>td_Resolver = resolver, td_ClientConfig = SSH cfg,
                              td_InsecureSkipTLSVerify = Insecure cfg,
                              td_ClusterCAs = RootCAs tlsConfig\<rparr>;
                        w2 = record_call (CallNewTunnelAuthDialer dc) w1
                    in
                    (case NewTunnelAuthDialer env dc of
                       Inl err \<Rightarrow> (Err (Wrap err), w2)
                     | Inr dialer \<Rightarrow>
                         let w3 = record_call (CallNewClient (tunnel_api_Config cfg dialer)) w2 in
                         (case auth_NewClient env (tunnel_api_Config cfg dialer) of
                            Inl err \<Rightarrow> (Err (Wrap err), w3)
                          | Inr tunnelClient \<Rightarrow>
                              ping_or_close env tunnelClient (client_opened tunnelClient w3))))))"

definition Connect :: "Collaborators \<Rightarrow> Config \<Rightarrow> World \<Rightarrow> Client result \<times> World" where
  "Connect env cfg w =
     (case connectViaAuthDirect env cfg (record_call (CallDebugf (AuthServers cfg)) w) of
        (Ok directClient, w1) \<Rightarrow> (Ok directClient, w1)
      | (Panic p, w1) \<Rightarrow> (Panic p, w1)
      | (Err err, w1) \<Rightarrow>
          if SSH cfg = None
          then (Err (Wrap (WrapMsg err ''failed direct dial to auth server: %v'')), w1)
          else
            (case connectViaProxyTunnel env cfg w1 of
               (Ok proxyTunnelClient, w2) \<Rightarrow> (Ok proxyTunnelClient, w2)
             | (Panic p, w2) \<Rightarrow> (Panic p, w2)
             | (Err err2, w2) \<Rightarrow>
                 (Err (NewAggregate
                         [WrapMsg err ''failed direct dial to auth server: %v'',
                          WrapMsg err2 ''failed dial to auth server through reverse tunnel: %v'']),
                  w2)))"

text \<open>The calls that belong to the tunnel path: making a resolver, caching it, making the
  tunnel dialer, and making a client over a dialer.\<close>

fun is_tunnel_call :: "AuthCall \<Rightarrow> bool" where
  "is_tunnel_call (CallWebClientResolver wc) = True"
| "is_tunnel_call (CallCachingResolver r) = True"
| "is_tunnel_call (CallNewTunnelAuthDialer dc) = True"
| "is_tunnel_call (CallNewClient ac) = (api_Dialer ac \<noteq> None)"
| "is_tunnel_call c = False"

text \<open>
  Whether a sequence of calls releases every client that failed its probe: a \<^verbatim>\<open>Ping\<close> that
  the client does not answer is followed at once by the \<^verbatim>\<open>Close\<close> of that client.
\<close>

fun probes_released :: "Collaborators \<Rightarrow> AuthCall list \<Rightarrow> bool" where
  "probes_released env [] = True"
| "probes_released env (CallPing c # rest) =
     (if client_Ping env c = None then probes_released env rest
      else (case rest of
              CallClose c' # rest' \<Rightarrow> c' = c \<and> probes_released env rest'
            | _ \<Rightarrow> False))"
| "probes_released env (x # rest) = probes_released env rest"

text \<open>
  What an attempt that started in world \<open>w\<close> and came back with \<open>r\<close> in world \<open>w'\<close> must
  leave behind: it only added calls, the calls it added release every client that failed
  its probe, a client it returns answered the probe it was sent and is the one client it
  left open, and an attempt that returns no client left none open.
\<close>

definition probed_and_released ::
  "Collaborators \<Rightarrow> World \<Rightarrow> Client result \<Rightarrow> World \<Rightarrow> bool" where
  "probed_and_released env w r w' =
     (take (length (calls w)) (calls w') = calls w \<and>
      probes_released env (drop (length (calls w)) (calls w')) \<and>
      (case r of
         Ok c \<Rightarrow> client_Ping env c = None \<and>
                 CallPing c \<in> set (drop (length (calls w)) (calls w')) \<and>
                 open_clients w' = c # open_clients w
       | Err e \<Rightarrow> open_clients w' = open_clients w
       | Panic p \<Rightarrow> open_clients w' = open_clients w))"

text \<open>Sample configurations and collaborators.\<close>

definition empty_world :: World where
  "empty_world = \<lparr>open_clients = [], calls = []\<rparr>"

definition sample_cfg :: Config where
  "sample_cfg =
     \<lparr>TLS = Some \<lparr>RootCAs = 7, Certificates = [1]\<rparr>,
      SSH = Some \<lparr>ssh_User = ''node''\<rparr>,
      AuthServers = [''proxy.example.com:3080'', ''auth.example.com:3025''],
      CircuitBreakerConfig = 3,
      DialTimeout = 30,
      MFAPromptConstructor = None,
      Insecure = False\<rparr>"

definition no_ssh_cfg :: Config where
  "no_ssh_cfg = sample_cfg\<lparr>SSH := None\<rparr>"

definition no_addrs_cfg :: Config where
  "no_addrs_cfg = sample_cfg\<lparr>AuthServers := []\<rparr>"

text \<open>Every dial is refused on the direct path; over the tunnel client \<open>2\<close> is built; no
  client answers the probe.\<close>

definition both_fail_env :: Collaborators where
  "both_fail_env =
     \<lparr>auth_NewClient = (\<lambda>ac. if api_Dialer ac = None then Inl (PlainError ''connection refused'')
                              else Inr 2),
      client_Ping = (\<lambda>c. Some (PlainError ''ping timed out'')),
      CachingResolver = (\<lambda>r. Inr (CachedResolver 0)),
      NewTunnelAuthDialer = (\<lambda>dc. Inr 5)\<rparr>"

text \<open>The direct path gives client \<open>1\<close>, which answers the probe.\<close>

definition direct_ok_env :: Collaborators where
  "direct_ok_env =
     \<lparr>auth_NewClient = (\<lambda>ac. if api_Dialer ac = None then Inr 1 else Inr 2),
      client_Ping = (\<lambda>c. None),
      CachingResolver = (\<lambda>r. Inr (CachedResolver 0)),
      NewTunnelAuthDialer = (\<lambda>dc. Inr 5)\<rparr>"

text \<open>The direct client \<open>1\<close> is built and does not answer the probe; the tunnel client \<open>2\<close>
  does.\<close>

definition tunnel_ok_env :: Collaborators where
  "tunnel_ok_env =
     \<lparr>auth_NewClient = (\<lambda>ac. if api_Dialer ac = None then Inr 1 else Inr 2),
      client_Ping = (\<lambda>c. if c = 1 then Some (PlainError ''ping timed out'') else None),
      CachingResolver = (\<lambda>r. Inr (CachedResolver 0)),
      NewTunnelAuthDialer = (\<lambda>dc. Inr 5)\<rparr>"

section \<open>The expiry at which a connection is disconnected\<close>

text \<open>
  A \<^verbatim>\<open>time.Time\<close> is a count of seconds; \<open>0\<close> is the zero time, for which \<^verbatim>\<open>IsZero()\<close> holds.
  Of \<^verbatim>\<open>tlsca.Identity\<close> the three fields the function reads; \<open>MFAVerified\<close> is the id of the
  MFA device the certificate was verified with, empty when there was none.
\<close>

type_synonym Time = int

definition zero_time :: Time where
  "zero_time = 0"

record Identity =
  Expires :: Time
  PreviousIdentityExpires :: Time
  MFAVerified :: string

record AccessChecker =
  AdjustDisconnectExpiredCert :: "bool \<Rightarrow> bool"

record AuthPreference =
  GetDisconnectExpiredCert :: bool

text \<open>Modelled from the spec: the function \<^verbatim>\<open>GetDisconnectExpiredCertFromIdentity\<close> of package
  \<^verbatim>\<open>srv\<close>, of which the sources at hand hold the test only. The effective expiry is the
  zero time when expiry-disconnect, as the access checker adjusts it, is off; else the
  previous identity's expiry overrides the certificate's own when the identity was
  MFA-verified and the previous expiry is set.
\<close>

definition GetDisconnectExpiredCertFromIdentity ::
  "AccessChecker \<Rightarrow> AuthPreference \<Rightarrow> Identity \<Rightarrow> Time" where
  "GetDisconnectExpiredCertFromIdentity checker authPref identity =
     (if \<not> AdjustDisconnectExpiredCert checker (GetDisconnectExpiredCert authPref)
      then zero_time
      else if MFAVerified identity \<noteq> [] \<and> PreviousIdentityExpires identity \<noteq> zero_time
      then PreviousIdentityExpires identity
      else Expires identity)"

text \<open>The fixtures of \<^verbatim>\<open>TestGetDisconnectExpiredCertFromIdentity\<close>: the mock checker returns
  its argument, the mock preference returns the flag of the test case, and the identity is
  built from the case's two times and its \<open>mfaVerified\<close> flag.\<close>

definition mockChecker :: AccessChecker where
  "mockChecker = \<lparr>AdjustDisconnectExpiredCert = (\<lambda>disconnect. disconnect)\<rparr>"

definition mockAuthPreference :: "bool \<Rightarrow> AuthPreference" where
  "mockAuthPreference disconnectExpiredCert = \<lparr>GetDisconnectExpiredCert = disconnectExpiredCert\<rparr>"

definition test_identity :: "Time \<Rightarrow> Time \<Rightarrow> bool \<Rightarrow> Identity" where
  "test_identity expires previousIdentityExpires mfaVerified =
     \<lparr>Expires = expires,
      PreviousIdentityExpires = previousIdentityExpires,
      MFAVerified = (if mfaVerified then ''1234'' else [])\<rparr>"

definition test_now :: Time where
  "test_now = 449884800"

definition test_inAnHour :: Time where
  "test_inAnHour = test_now + 3600"

section \<open>Properties of TunnelWithRoles\<close>

lemma GetSites_loop_ok:
  "\<not> list_ex (\<lambda>c. lookup_failure t c \<or> check_failure t c) cs \<Longrightarrow>
   fst (GetSites_loop t cs out log) = Inr (out @ filter (\<lambda>c. \<not> excluded t c) cs)"
proof (induction cs arbitrary: out log)
  case Nil
  then show ?case by simp
next
  case (Cons c cs)
  then show ?case
    by (auto simp: lookup_failure_def check_failure_def excluded_def
             split: sum.splits option.splits)
qed

lemma GetSites_loop_step_hard:
  "lookup_failure t c \<or> check_failure t c \<Longrightarrow> isl (fst (GetSites_loop t (c # cs) out log))"
  by (auto simp: lookup_failure_def check_failure_def split: sum.splits option.splits)

lemma GetSites_loop_step_soft:
  "\<not> (lookup_failure t c \<or> check_failure t c) \<Longrightarrow>
   \<exists>out' log'. GetSites_loop t (c # cs) out log = GetSites_loop t cs out' log'"
  by (auto simp: lookup_failure_def check_failure_def split: sum.splits option.splits)

lemma GetSites_loop_abort:
  "list_ex (\<lambda>c. lookup_failure t c \<or> check_failure t c) cs \<Longrightarrow>
   isl (fst (GetSites_loop t cs out log))"
proof (induction cs arbitrary: out log)
  case Nil
  then show ?case by simp
next
  case (Cons c cs)
  show ?case
  proof (cases "lookup_failure t c \<or> check_failure t c")
    case True
    then show ?thesis by (rule GetSites_loop_step_hard)
  next
    case False
    with Cons.prems have rest: "list_ex (\<lambda>c. lookup_failure t c \<or> check_failure t c) cs"
      by simp
    from GetSites_loop_step_soft [OF False] obtain out' log'
      where "GetSites_loop t (c # cs) out log = GetSites_loop t cs out' log'"
      by blast
    with Cons.IH [OF rest] show ?thesis by simp
  qed
qed

lemma GetSites_loop_lookups:
  "CallGetRemoteCluster n \<in> set (snd (GetSites_loop t cs out log)) \<Longrightarrow>
   CallGetRemoteCluster n \<in> set log \<or> (n \<noteq> localCluster t \<and> n \<in> GetName ` set cs)"
proof (induction cs arbitrary: out log)
  case Nil
  then show ?case by simp
next
  case (Cons c cs)
  show ?case
  proof (cases "localCluster t = GetName c")
    case True
    with Cons.prems have "CallGetRemoteCluster n \<in> set (snd (GetSites_loop t cs (out @ [c]) log))"
      by simp
    from Cons.IH [OF this] show ?thesis by auto
  next
    case False
    show ?thesis
    proof (cases "access t (GetName c)")
      case (Inl err)
      show ?thesis
      proof (cases "IsNotFound err")
        case True
        with Cons.prems False Inl
        have "CallGetRemoteCluster n \<in> set (snd (GetSites_loop t cs out
                (log @ [CallGetRemoteCluster (GetName c), CallWarningf (GetName c)])))"
          by simp
        from Cons.IH [OF this] False show ?thesis by auto
      next
        case nf: False
        with Cons.prems False Inl show ?thesis by auto
      qed
    next
      case (Inr rc)
      show ?thesis
      proof (cases "accessChecker t rc")
        case None
        with Cons.prems False Inr
        have "CallGetRemoteCluster n \<in> set (snd (GetSites_loop t cs (out @ [c])
                (log @ [CallGetRemoteCluster (GetName c), CallCheckAccessToRemoteCluster rc])))"
          by simp
        from Cons.IH [OF this] False show ?thesis by auto
      next
        case (Some err)
        show ?thesis
        proof (cases "IsAccessDenied err")
          case True
          with Cons.prems False Inr Some
          have "CallGetRemoteCluster n \<in> set (snd (GetSites_loop t cs out
                  (log @ [CallGetRemoteCluster (GetName c), CallCheckAccessToRemoteCluster rc])))"
            by simp
          from Cons.IH [OF this] False show ?thesis by auto
        next
          case ad: False
          with Cons.prems False Inr Some show ?thesis by auto
        qed
      qed
    qed
  qed
qed

lemma GetSites_loop_checks:
  "CallCheckAccessToRemoteCluster rc \<in> set (snd (GetSites_loop t cs out log)) \<Longrightarrow>
   CallCheckAccessToRemoteCluster rc \<in> set log \<or>
   (\<exists>c \<in> set cs. GetName c \<noteq> localCluster t \<and> access t (GetName c) = Inr rc)"
proof (induction cs arbitrary: out log)
  case Nil
  then show ?case by simp
next
  case (Cons c cs)
  show ?case
  proof (cases "localCluster t = GetName c")
    case True
    with Cons.prems have "CallCheckAccessToRemoteCluster rc \<in> set (snd (GetSites_loop t cs (out @ [c]) log))"
      by simp
    from Cons.IH [OF this] show ?thesis by auto
  next
    case False
    show ?thesis
    proof (cases "access t (GetName c)")
      case (Inl err)
      show ?thesis
      proof (cases "IsNotFound err")
        case True
        with Cons.prems False Inl
        have "CallCheckAccessToRemoteCluster rc \<in> set (snd (GetSites_loop t cs out
                (log @ [CallGetRemoteCluster (GetName c), CallWarningf (GetName c)])))"
          by simp
        from Cons.IH [OF this] False show ?thesis by auto
      next
        case nf: False
        with Cons.prems False Inl show ?thesis by auto
      qed
    next
      case (Inr rc')
      show ?thesis
      proof (cases "accessChecker t rc'")
        case None
        with Cons.prems False Inr
        have "CallCheckAccessToRemoteCluster rc \<in> set (snd (GetSites_loop t cs (out @ [c])
                (log @ [CallGetRemoteCluster (GetName c), CallCheckAccessToRemoteCluster rc'])))"
          by simp
        from Cons.IH [OF this] False Inr show ?thesis by auto
      next
        case (Some err)
        show ?thesis
        proof (cases "IsAccessDenied err")
          case True
          with Cons.prems False Inr Some
          have "CallCheckAccessToRemoteCluster rc \<in> set (snd (GetSites_loop t cs out
                  (log @ [CallGetRemoteCluster (GetName c), CallCheckAccessToRemoteCluster rc'])))"
            by simp
          from Cons.IH [OF this] False Inr show ?thesis by auto
        next
          case ad: False
          with Cons.prems False Inr Some show ?thesis by auto
        qed
      qed
    qed
  qed
qed

lemma kinds_exclusive: "IsNotFound e \<Longrightarrow> \<not> IsAccessDenied e"
  by (induction e) auto

lemmas tunnel_samples =
  sample_tunnel_def root_site_def leaf_site_def east_site_def deny_all_def allow_all_def
  no_resources_def all_resources_def broken_store_def dangling_tunnel_def denied_tunnel_def
  allowed_tunnel_def broken_store_tunnel_def deny_east_def mixed_tunnel_def opaque_denied_def

lemma GetSites_isl_iff:
  "isl (fst (GetSites t)) \<longleftrightarrow>
     enumeration_fails t \<or> resource_lookup_fails t \<or> access_decision_fails t"
proof (cases "tunnel_GetSites (tunnel t)")
  case (Inl err)
  then show ?thesis by (simp add: GetSites_def enumeration_fails_def)
next
  case (Inr clusters)
  have ex: "list_ex (\<lambda>c. lookup_failure t c \<or> check_failure t c) clusters \<longleftrightarrow>
            list_ex (lookup_failure t) clusters \<or> list_ex (check_failure t) clusters"
    by (auto simp: list_ex_iff)
  show ?thesis
  proof (cases "list_ex (\<lambda>c. lookup_failure t c \<or> check_failure t c) clusters")
    case True
    from GetSites_loop_abort [OF True] have "isl (fst (GetSites t))"
      by (simp add: GetSites_def Inr)
    with True ex Inr show ?thesis
      by (simp add: resource_lookup_fails_def access_decision_fails_def)
  next
    case False
    from GetSites_loop_ok [OF False] have "\<not> isl (fst (GetSites t))"
      by (simp add: GetSites_def Inr)
    with False ex Inr show ?thesis
      by (simp add: resource_lookup_fails_def access_decision_fails_def enumeration_fails_def)
  qed
qed

lemma GetSites_Inr_filter:
  assumes "tunnel_GetSites (tunnel t) = Inr clusters" and "\<not> isl (fst (GetSites t))"
  shows "fst (GetSites t) = Inr (filter (\<lambda>c. \<not> excluded t c) clusters)"
proof -
  have "\<not> list_ex (\<lambda>c. lookup_failure t c \<or> check_failure t c) clusters"
  proof
    assume "list_ex (\<lambda>c. lookup_failure t c \<or> check_failure t c) clusters"
    from GetSites_loop_abort [OF this] assms show False
      by (simp add: GetSites_def)
  qed
  from GetSites_loop_ok [OF this] assms(1) show ?thesis
    by (simp add: GetSites_def)
qed

text \<open>
  C2, as amended. \<^verbatim>\<open>GetSites\<close> returns an error if and only if the enumeration of the wrapped
  tunnel fails, or the resource lookup of a site that is not the local cluster fails with
  an error other than not-found, or the access decision on such a site fails with an error
  other than access-denied. When it returns a list, every site that is not the local cluster
  and whose lookup reports not-found or whose access check reports access-denied is left
  out, and the loop goes on with the rest: the list is the wrapped tunnel's list without
  the excluded sites.
\<close>

theorem GetSites_error_iff:
  "(isl (fst (GetSites t)) \<longleftrightarrow>
      enumeration_fails t \<or> resource_lookup_fails t \<or> access_decision_fails t) \<and>
   (\<forall>clusters. tunnel_GetSites (tunnel t) = Inr clusters \<longrightarrow> \<not> isl (fst (GetSites t)) \<longrightarrow>
      fst (GetSites t) = Inr (filter (\<lambda>c. \<not> excluded t c) clusters))"
  using GetSites_isl_iff GetSites_Inr_filter by blast

theorem GetSites_error_iff_witness:
  "tunnel_GetSites (tunnel dangling_tunnel) = Inr [leaf_site, root_site, east_site] \<and>
   \<not> isl (fst (GetSites dangling_tunnel)) \<and>
   \<not> (enumeration_fails dangling_tunnel \<or> resource_lookup_fails dangling_tunnel \<or>
      access_decision_fails dangling_tunnel) \<and>
   excluded dangling_tunnel leaf_site \<and> excluded dangling_tunnel east_site \<and>
   fst (GetSites dangling_tunnel) = Inr [root_site] \<and>
   isl (fst (GetSites broken_store_tunnel)) \<and> resource_lookup_fails broken_store_tunnel"
  using GetSites_error_iff [of dangling_tunnel] GetSites_error_iff [of broken_store_tunnel]
  by (simp add: tunnel_samples GetSites_def enumeration_fails_def resource_lookup_fails_def
        access_decision_fails_def lookup_failure_def check_failure_def excluded_def)

text \<open>
  C2, as stated, fails: with a resource store that answers the lookup with an error other
  than not-found, \<^verbatim>\<open>GetSites\<close> returns an error although the enumeration succeeded and no
  access decision failed.
\<close>

theorem GetSites_error_claim_counterexample:
  "isl (fst (GetSites broken_store_tunnel)) \<and>
   \<not> enumeration_fails broken_store_tunnel \<and>
   \<not> access_decision_fails broken_store_tunnel"
  by (simp add: tunnel_samples GetSites_def enumeration_fails_def
        access_decision_fails_def check_failure_def)

text \<open>
  C7. The list \<^verbatim>\<open>GetSites\<close> returns is the list of the wrapped tunnel with the excluded sites
  removed and nothing else changed: the same sites in the same order, a subsequence of the
  underlying list.
\<close>

theorem GetSites_subsequence:
  assumes "tunnel_GetSites (tunnel t) = Inr clusters" and "fst (GetSites t) = Inr out"
  shows "out = filter (\<lambda>c. \<not> excluded t c) clusters \<and> subseq out clusters"
proof -
  from assms(2) have "\<not> isl (fst (GetSites t))" by simp
  from GetSites_Inr_filter [OF assms(1) this] assms(2)
  have "out = filter (\<lambda>c. \<not> excluded t c) clusters" by simp
  then show ?thesis by simp
qed

theorem GetSites_subsequence_witness:
  "tunnel_GetSites (tunnel mixed_tunnel) = Inr [leaf_site, root_site, east_site] \<and>
   fst (GetSites mixed_tunnel) = Inr [leaf_site, root_site] \<and>
   [leaf_site, root_site] = filter (\<lambda>c. \<not> excluded mixed_tunnel c) [leaf_site, root_site, east_site] \<and>
   subseq [leaf_site, root_site] [leaf_site, root_site, east_site]"
proof -
  have a: "tunnel_GetSites (tunnel mixed_tunnel) = Inr [leaf_site, root_site, east_site]"
    by (simp add: tunnel_samples)
  have b: "fst (GetSites mixed_tunnel) = Inr [leaf_site, root_site]"
    by (simp add: tunnel_samples GetSites_def)
  from GetSites_subsequence [OF a b] a b show ?thesis by simp
qed

lemma GetSites_local_lookups:
  "CallGetRemoteCluster (localCluster t) \<notin> set (snd (GetSites t))"
proof (cases "tunnel_GetSites (tunnel t)")
  case (Inl err)
  then show ?thesis by (simp add: GetSites_def)
next
  case (Inr clusters)
  show ?thesis
  proof
    assume "CallGetRemoteCluster (localCluster t) \<in> set (snd (GetSites t))"
    with Inr have "CallGetRemoteCluster (localCluster t)
                     \<in> set (snd (GetSites_loop t clusters [] [CallTunnelGetSites]))"
      by (simp add: GetSites_def)
    from GetSites_loop_lookups [OF this] show False by simp
  qed
qed

lemma GetSites_checks:
  assumes "CallCheckAccessToRemoteCluster rc \<in> set (snd (GetSites t))"
  shows "\<exists>clusters. tunnel_GetSites (tunnel t) = Inr clusters \<and>
           (\<exists>c \<in> set clusters. GetName c \<noteq> localCluster t \<and> access t (GetName c) = Inr rc)"
proof (cases "tunnel_GetSites (tunnel t)")
  case (Inl err)
  with assms show ?thesis by (simp add: GetSites_def)
next
  case (Inr clusters)
  with assms have "CallCheckAccessToRemoteCluster rc
                     \<in> set (snd (GetSites_loop t clusters [] [CallTunnelGetSites]))"
    by (simp add: GetSites_def)
  from GetSites_loop_checks [OF this] Inr show ?thesis by simp
qed

lemma local_not_excluded: "GetName c = localCluster t \<Longrightarrow> \<not> excluded t c"
  by (simp add: excluded_def)

text \<open>
  C1, as amended. For a site that is not the local cluster, \<^verbatim>\<open>GetSite\<close> does not return the
  site when the resource lookup or the access check fails. When the access check fails it
  returns what \<^verbatim>\<open>utils.OpaqueAccessDenied\<close> makes of the checker's error. When the lookup of
  the \<^verbatim>\<open>RemoteCluster\<close> resource fails it returns the lookup's own error, wrapped, with its
  kind kept: a not-found stays a not-found and is not an access-denied error.
\<close>

theorem GetSite_remote_errors:
  assumes "tunnel_GetSite (tunnel t) n = Inr c" and "localCluster t \<noteq> GetName c"
  shows "(\<forall>err. access t n = Inl err \<longrightarrow>
            fst (GetSite opaque t n) = Inl (Wrap err) \<and>
            IsNotFound (Wrap err) = IsNotFound err \<and>
            IsAccessDenied (Wrap err) = IsAccessDenied err \<and>
            (IsNotFound err \<longrightarrow> \<not> IsAccessDenied (Wrap err))) \<and>
         (\<forall>rc err. access t n = Inr rc \<longrightarrow> accessChecker t rc = Some err \<longrightarrow>
            fst (GetSite opaque t n) = Inl (opaque err))"
  using assms by (auto simp: GetSite_def Wrap_def dest: kinds_exclusive)

theorem GetSite_remote_errors_witness:
  "tunnel_GetSite (tunnel dangling_tunnel) ''leaf'' = Inr leaf_site \<and>
   localCluster dangling_tunnel \<noteq> GetName leaf_site \<and>
   access dangling_tunnel ''leaf'' = Inl (NotFoundError ''remote cluster not found'') \<and>
   fst (GetSite opaque_denied dangling_tunnel ''leaf'') =
     Inl (Wrap (NotFoundError ''remote cluster not found'')) \<and>
   IsNotFound (Wrap (NotFoundError ''remote cluster not found'')) \<and>
   tunnel_GetSite (tunnel denied_tunnel) ''leaf'' = Inr leaf_site \<and>
   localCluster denied_tunnel \<noteq> GetName leaf_site \<and>
   access denied_tunnel ''leaf'' = Inr \<lparr>rc_name = ''leaf'', rc_labels = []\<rparr> \<and>
   accessChecker denied_tunnel \<lparr>rc_name = ''leaf'', rc_labels = []\<rparr> =
     Some (AccessDeniedError ''access to cluster denied'') \<and>
   fst (GetSite opaque_denied denied_tunnel ''leaf'') =
     Inl (opaque_denied (AccessDeniedError ''access to cluster denied''))"
proof -
  have a: "tunnel_GetSite (tunnel dangling_tunnel) ''leaf'' = Inr leaf_site"
    by (simp add: tunnel_samples)
  have b: "localCluster dangling_tunnel \<noteq> GetName leaf_site"
    by (simp add: tunnel_samples)
  have c: "tunnel_GetSite (tunnel denied_tunnel) ''leaf'' = Inr leaf_site"
    by (simp add: tunnel_samples)
  have d: "localCluster denied_tunnel \<noteq> GetName leaf_site"
    by (simp add: tunnel_samples)
  have e: "access dangling_tunnel ''leaf'' = Inl (NotFoundError ''remote cluster not found'')"
    by (simp add: tunnel_samples)
  have f: "access denied_tunnel ''leaf'' = Inr \<lparr>rc_name = ''leaf'', rc_labels = []\<rparr>"
    by (simp add: tunnel_samples)
  have g: "accessChecker denied_tunnel \<lparr>rc_name = ''leaf'', rc_labels = []\<rparr> =
     Some (AccessDeniedError ''access to cluster denied'')"
    by (simp add: tunnel_samples)
  from GetSite_remote_errors [OF a b, of opaque_denied]
       GetSite_remote_errors [OF c d, of opaque_denied] a b c d e f g
  show ?thesis by simp
qed

text \<open>
  C1, as stated, fails: for the remote site \<open>''leaf''\<close> whose resource lookup reports
  not-found, \<^verbatim>\<open>GetSite\<close> returns the wrapped not-found error, which is not an access-denied
  error.
\<close>

theorem GetSite_not_found_counterexample:
  "tunnel_GetSite (tunnel dangling_tunnel) ''leaf'' = Inr leaf_site \<and>
   GetName leaf_site \<noteq> localCluster dangling_tunnel \<and>
   IsNotFound (NotFoundError ''remote cluster not found'') \<and>
   access dangling_tunnel ''leaf'' = Inl (NotFoundError ''remote cluster not found'') \<and>
   fst (GetSite opaque_denied dangling_tunnel ''leaf'') =
     Inl (Wrap (NotFoundError ''remote cluster not found'')) \<and>
   \<not> IsAccessDenied (Wrap (NotFoundError ''remote cluster not found''))"
  by (simp add: tunnel_samples GetSite_def Wrap_def)

text \<open>
  C3, as amended. Whenever \<^verbatim>\<open>GetSites\<close> returns a list, a site whose name is the local
  cluster name is in that list, as often as in the underlying list, and \<^verbatim>\<open>GetSite\<close> returns
  such a site whenever the wrapped tunnel returns it. Neither method looks up a
  \<^verbatim>\<open>RemoteCluster\<close> resource of that name, and every access check \<^verbatim>\<open>GetSites\<close> makes is on
  the resource of a site with another name; \<^verbatim>\<open>GetSite\<close> makes no call but the one to the
  wrapped tunnel. This holds for every resource store and every access checker.
\<close>

theorem local_cluster_never_filtered:
  assumes "GetName c = localCluster t"
  shows "(\<forall>clusters out. tunnel_GetSites (tunnel t) = Inr clusters \<longrightarrow> c \<in> set clusters \<longrightarrow>
            fst (GetSites t) = Inr out \<longrightarrow>
            c \<in> set out \<and> count_list out c = count_list clusters c) \<and>
         CallGetRemoteCluster (GetName c) \<notin> set (snd (GetSites t)) \<and>
         (\<forall>rc. CallCheckAccessToRemoteCluster rc \<in> set (snd (GetSites t)) \<longrightarrow>
            (\<exists>clusters. tunnel_GetSites (tunnel t) = Inr clusters \<and>
               (\<exists>s \<in> set clusters. GetName s \<noteq> GetName c \<and> access t (GetName s) = Inr rc))) \<and>
         (\<forall>n. tunnel_GetSite (tunnel t) n = Inr c \<longrightarrow>
            GetSite opaque t n = (Inr c, [CallTunnelGetSite n]))"
proof (intro conjI allI impI)
  fix clusters out
  assume a: "tunnel_GetSites (tunnel t) = Inr clusters" and b: "c \<in> set clusters"
    and d: "fst (GetSites t) = Inr out"
  from d have "\<not> isl (fst (GetSites t))" by simp
  from GetSites_Inr_filter [OF a this] d
  have out: "out = filter (\<lambda>c. \<not> excluded t c) clusters" by simp
  with b local_not_excluded [OF assms] show "c \<in> set out" by simp
  have "count_list (filter (\<lambda>c. \<not> excluded t c) xs) c = count_list xs c" for xs
    using local_not_excluded [OF assms] by (induction xs) auto
  with out show "count_list out c = count_list clusters c" by simp
next
  from GetSites_local_lookups [of t] assms
  show "CallGetRemoteCluster (GetName c) \<notin> set (snd (GetSites t))" by simp
next
  fix rc
  assume "CallCheckAccessToRemoteCluster rc \<in> set (snd (GetSites t))"
  from GetSites_checks [OF this] assms
  show "\<exists>clusters. tunnel_GetSites (tunnel t) = Inr clusters \<and>
               (\<exists>s \<in> set clusters. GetName s \<noteq> GetName c \<and> access t (GetName s) = Inr rc)"
    by simp
next
  fix n
  assume "tunnel_GetSite (tunnel t) n = Inr c"
  with assms show "GetSite opaque t n = (Inr c, [CallTunnelGetSite n])"
    by (simp add: GetSite_def)
qed

theorem local_cluster_never_filtered_witness:
  "GetName root_site = localCluster dangling_tunnel \<and>
   tunnel_GetSites (tunnel dangling_tunnel) = Inr [leaf_site, root_site, east_site] \<and>
   root_site \<in> set [leaf_site, root_site, east_site] \<and>
   fst (GetSites dangling_tunnel) = Inr [root_site] \<and>
   root_site \<in> set [root_site] \<and>
   access dangling_tunnel (GetName root_site) = Inl (NotFoundError ''remote cluster not found'') \<and>
   CallGetRemoteCluster (GetName root_site) \<notin> set (snd (GetSites dangling_tunnel)) \<and>
   tunnel_GetSite (tunnel dangling_tunnel) ''root'' = Inr root_site \<and>
   GetSite opaque_denied dangling_tunnel ''root'' = (Inr root_site, [CallTunnelGetSite ''root''])"
proof -
  have a: "GetName root_site = localCluster dangling_tunnel"
    by (simp add: tunnel_samples)
  have b: "tunnel_GetSites (tunnel dangling_tunnel) = Inr [leaf_site, root_site, east_site]"
    by (simp add: tunnel_samples)
  have c: "fst (GetSites dangling_tunnel) = Inr [root_site]"
    by (simp add: tunnel_samples GetSites_def)
  have d: "tunnel_GetSite (tunnel dangling_tunnel) ''root'' = Inr root_site"
    by (simp add: tunnel_samples)
  have e: "access dangling_tunnel (GetName root_site) = Inl (NotFoundError ''remote cluster not found'')"
    by (simp add: tunnel_samples)
  from local_cluster_never_filtered [OF a, of opaque_denied] a b c d e
  show ?thesis by simp
qed

text \<open>
  C3, as stated, fails: the local site \<open>root_site\<close> is in the underlying list, but the
  resource lookup of the remote site before it fails with an error that is not not-found,
  so \<^verbatim>\<open>GetSites\<close> returns that error and no list.
\<close>

theorem local_site_lost_counterexample:
  "tunnel_GetSites (tunnel broken_store_tunnel) = Inr [leaf_site, root_site, east_site] \<and>
   GetName root_site = localCluster broken_store_tunnel \<and>
   fst (GetSites broken_store_tunnel) = Inl (Wrap (PlainError ''backend unavailable''))"
  by (simp add: tunnel_samples GetSites_def)

section \<open>Properties of Connect\<close>

lemma probes_released_append:
  "probes_released env xs \<Longrightarrow> probes_released env ys \<Longrightarrow> probes_released env (xs @ ys)"
proof (induction env xs rule: probes_released.induct)
  case (1 env)
  then show ?case by simp
next
  case (2 env c rest)
  then show ?case
    by (cases "client_Ping env c = None") (auto split: list.splits AuthCall.splits)
qed simp_all

lemma connectViaAuthDirect_cases:
  "connectViaAuthDirect env cfg w =
     (case auth_NewClient env (direct_api_Config cfg) of
        Inl err \<Rightarrow> (Err (Wrap err), w\<lparr>calls := calls w @ [CallNewClient (direct_api_Config cfg)]\<rparr>)
      | Inr c \<Rightarrow>
          (case client_Ping env c of
             None \<Rightarrow> (Ok c, w\<lparr>open_clients := c # open_clients w,
                              calls := calls w @ [CallNewClient (direct_api_Config cfg), CallPing c]\<rparr>)
           | Some err \<Rightarrow> (Err (Wrap err),
                 w\<lparr>calls := calls w @ [CallNewClient (direct_api_Config cfg), CallPing c, CallClose c]\<rparr>)))"
  by (simp add: connectViaAuthDirect_def ping_or_close_def client_opened_def client_Close_def
        record_call_def split: sum.splits option.splits)

lemma probed_and_released_iff:
  "probed_and_released env w r w' \<longleftrightarrow>
     (\<exists>new. calls w' = calls w @ new \<and> probes_released env new \<and>
        (case r of
           Ok c \<Rightarrow> client_Ping env c = None \<and> CallPing c \<in> set new \<and>
                   open_clients w' = c # open_clients w
         | Err e \<Rightarrow> open_clients w' = open_clients w
         | Panic p \<Rightarrow> open_clients w' = open_clients w))"
proof
  assume l: "probed_and_released env w r w'"
  let ?new = "drop (length (calls w)) (calls w')"
  from l have "take (length (calls w)) (calls w') = calls w"
    by (simp add: probed_and_released_def)
  then have "calls w' = calls w @ ?new"
    by (metis append_take_drop_id)
  with l show "\<exists>new. calls w' = calls w @ new \<and> probes_released env new \<and>
        (case r of
           Ok c \<Rightarrow> client_Ping env c = None \<and> CallPing c \<in> set new \<and>
                   open_clients w' = c # open_clients w
         | Err e \<Rightarrow> open_clients w' = open_clients w
         | Panic p \<Rightarrow> open_clients w' = open_clients w)"
    by (intro exI [of _ ?new]) (simp add: probed_and_released_def split: result.splits)
next
  assume "\<exists>new. calls w' = calls w @ new \<and> probes_released env new \<and>
        (case r of
           Ok c \<Rightarrow> client_Ping env c = None \<and> CallPing c \<in> set new \<and>
                   open_clients w' = c # open_clients w
         | Err e \<Rightarrow> open_clients w' = open_clients w
         | Panic p \<Rightarrow> open_clients w' = open_clients w)"
  then show "probed_and_released env w r w'"
    by (auto simp: probed_and_released_def split: result.splits)
qed

lemma direct_probed_and_released:
  "connectViaAuthDirect env cfg w = (r, w') \<Longrightarrow> probed_and_released env w r w'"
  unfolding probed_and_released_iff connectViaAuthDirect_cases
  by (auto split: sum.splits option.splits)

lemma direct_no_panic: "fst (connectViaAuthDirect env cfg w) \<noteq> Panic p"
  unfolding connectViaAuthDirect_cases
  by (auto split: sum.splits option.splits)

lemma direct_no_tunnel_calls:
  "\<exists>new. calls (snd (connectViaAuthDirect env cfg w)) = calls w @ new \<and> \<not> list_ex is_tunnel_call new"
  unfolding connectViaAuthDirect_cases
  by (auto simp: direct_api_Config_def split: sum.splits option.splits)

lemma tunnel_probed_and_released:
  "connectViaProxyTunnel env cfg w = (r, w') \<Longrightarrow> probed_and_released env w r w'"
  unfolding probed_and_released_iff connectViaProxyTunnel_def
  by (auto simp: Let_def ping_or_close_def client_opened_def client_Close_def record_call_def
           split: sum.splits option.splits list.splits)

lemma probed_and_released_trans:
  assumes "probed_and_released env w r1 w1" and "\<forall>c. r1 \<noteq> Ok c" and "probed_and_released env w1 r2 w2"
  shows "probed_and_released env w r2 w2"
proof -
  from assms(1) obtain n1 where n1: "calls w1 = calls w @ n1" "probes_released env n1"
    and o1: "open_clients w1 = open_clients w"
    using assms(2) by (cases r1) (auto simp: probed_and_released_iff)
  from assms(3) obtain n2 where n2: "calls w2 = calls w1 @ n2" "probes_released env n2"
    and o2: "(case r2 of
           Ok c \<Rightarrow> client_Ping env c = None \<and> CallPing c \<in> set n2 \<and>
                   open_clients w2 = c # open_clients w1
         | Err e \<Rightarrow> open_clients w2 = open_clients w1
         | Panic p \<Rightarrow> open_clients w2 = open_clients w1)"
    unfolding probed_and_released_iff by blast
  have "calls w2 = calls w @ (n1 @ n2)" using n1 n2 by simp
  moreover have "probes_released env (n1 @ n2)"
    using n1 n2 by (simp add: probes_released_append)
  ultimately show ?thesis
    unfolding probed_and_released_iff using o1 o2
    by (intro exI [of _ "n1 @ n2"]) (auto split: result.splits)
qed

lemma Connect_attempt_released:
  assumes "Connect env cfg w = (r, w')"
  shows "probed_and_released env w r w'"
proof -
  let ?w0 = "record_call (CallDebugf (AuthServers cfg)) w"
  have w0: "probed_and_released env w (Err (PlainError [])) ?w0"
    by (simp add: probed_and_released_iff record_call_def)
  obtain r1 w1 where d: "connectViaAuthDirect env cfg ?w0 = (r1, w1)"
    by (cases "connectViaAuthDirect env cfg ?w0")
  have a1: "probed_and_released env w r1 w1"
    by (rule probed_and_released_trans [OF w0 _ direct_probed_and_released [OF d]]) simp
  show ?thesis
  proof (cases r1)
    case (Ok c)
    with d a1 assms show ?thesis by (simp add: Connect_def)
  next
    case (Panic p)
    with d a1 assms show ?thesis by (simp add: Connect_def)
  next
    case (Err e1)
    show ?thesis
    proof (cases "SSH cfg")
      case None
      with d Err assms
      have "r = Err (Wrap (WrapMsg e1 ''failed direct dial to auth server: %v''))" "w' = w1"
        by (simp_all add: Connect_def)
      with a1 Err show ?thesis by (simp add: probed_and_released_iff)
    next
      case (Some sshConfig)
      obtain r2 w2 where t: "connectViaProxyTunnel env cfg w1 = (r2, w2)"
        by (cases "connectViaProxyTunnel env cfg w1")
      have a2: "probed_and_released env w r2 w2"
        by (rule probed_and_released_trans [OF a1 _ tunnel_probed_and_released [OF t]]) (simp add: Err)
      show ?thesis
      proof (cases r2)
        case (Ok c)
        with d Err Some t a2 assms show ?thesis by (simp add: Connect_def)
      next
        case (Panic p)
        with d Err Some t a2 assms show ?thesis by (simp add: Connect_def)
      next
        case e2: (Err e2)
        with d Err Some t assms
        have "w' = w2" "\<exists>e. r = Err e" by (auto simp: Connect_def)
        with a2 e2 show ?thesis by (auto simp: probed_and_released_iff)
      qed
    qed
  qed
qed

lemmas auth_samples =
  empty_world_def sample_cfg_def no_ssh_cfg_def no_addrs_cfg_def both_fail_env_def
  direct_ok_env_def tunnel_ok_env_def

lemmas connect_defs =
  Connect_def connectViaAuthDirect_def connectViaProxyTunnel_def ping_or_close_def
  client_opened_def client_Close_def record_call_def direct_api_Config_def tunnel_api_Config_def

text \<open>
  C5. On the direct path, on the tunnel path and in \<^verbatim>\<open>Connect\<close> as a whole: a client whose
  probe fails is closed right after the probe, before the error is returned; a client that
  is returned answered the probe sent to it; and after an attempt that returns no client
  the open clients are those that were open before it.
\<close>

theorem Connect_probed_and_released:
  "(case connectViaAuthDirect env cfg w of (r, w') \<Rightarrow> probed_and_released env w r w') \<and>
   (case connectViaProxyTunnel env cfg w of (r, w') \<Rightarrow> probed_and_released env w r w') \<and>
   (case Connect env cfg w of (r, w') \<Rightarrow> probed_and_released env w r w')"
  using direct_probed_and_released [of env cfg w] tunnel_probed_and_released [of env cfg w]
    Connect_attempt_released [of env cfg w]
  by (auto split: prod.splits)

theorem Connect_probed_and_released_witness:
  "fst (Connect tunnel_ok_env sample_cfg empty_world) = Ok 2 \<and>
   client_Ping tunnel_ok_env 1 = Some (PlainError ''ping timed out'') \<and>
   client_Ping tunnel_ok_env 2 = None \<and>
   open_clients (snd (Connect tunnel_ok_env sample_cfg empty_world)) = [2] \<and>
   CallClose 1 \<in> set (calls (snd (Connect tunnel_ok_env sample_cfg empty_world))) \<and>
   probed_and_released tunnel_ok_env empty_world (Ok 2)
     (snd (Connect tunnel_ok_env sample_cfg empty_world))"
proof -
  have a: "fst (Connect tunnel_ok_env sample_cfg empty_world) = Ok 2"
    by (simp add: auth_samples connect_defs Let_def)
  have b: "open_clients (snd (Connect tunnel_ok_env sample_cfg empty_world)) = [2]"
    by (simp add: auth_samples connect_defs Let_def)
  have c: "CallClose 1 \<in> set (calls (snd (Connect tunnel_ok_env sample_cfg empty_world)))"
    by (simp add: auth_samples connect_defs Let_def)
  have d: "client_Ping tunnel_ok_env 1 = Some (PlainError ''ping timed out'')"
    "client_Ping tunnel_ok_env 2 = None"
    by (simp_all add: auth_samples)
  from Connect_probed_and_released [where env = tunnel_ok_env and cfg = sample_cfg and w = empty_world]
  have "probed_and_released tunnel_ok_env empty_world
          (fst (Connect tunnel_ok_env sample_cfg empty_world))
          (snd (Connect tunnel_ok_env sample_cfg empty_world))"
    by (simp add: case_prod_beta)
  with a b c d show ?thesis by simp
qed

text \<open>
  C4. With SSH credentials present, when the direct attempt returns an error and the tunnel
  attempt returns an error, \<^verbatim>\<open>Connect\<close> returns the aggregate of the two, each under its own
  message, and the causes of the aggregate are the causes of the direct error followed by
  the causes of the tunnel error.
\<close>

theorem Connect_aggregates_both_failures:
  assumes "SSH cfg \<noteq> None"
    and "connectViaAuthDirect env cfg (record_call (CallDebugf (AuthServers cfg)) w) = (Err e1, w1)"
    and "connectViaProxyTunnel env cfg w1 = (Err e2, w2)"
  shows "Connect env cfg w =
           (Err (NewAggregate
                   [WrapMsg e1 ''failed direct dial to auth server: %v'',
                    WrapMsg e2 ''failed dial to auth server through reverse tunnel: %v'']), w2) \<and>
         causes (NewAggregate
                   [WrapMsg e1 ''failed direct dial to auth server: %v'',
                    WrapMsg e2 ''failed dial to auth server through reverse tunnel: %v''])
           = causes e1 @ causes e2"
  using assms by (auto simp: Connect_def NewAggregate_def WrapMsg_def)

theorem Connect_aggregates_both_failures_witness:
  "SSH sample_cfg \<noteq> None \<and>
   fst (connectViaAuthDirect both_fail_env sample_cfg
          (record_call (CallDebugf (AuthServers sample_cfg)) empty_world))
     = Err (Wrap (PlainError ''connection refused'')) \<and>
   fst (connectViaProxyTunnel both_fail_env sample_cfg
          (snd (connectViaAuthDirect both_fail_env sample_cfg
                  (record_call (CallDebugf (AuthServers sample_cfg)) empty_world))))
     = Err (Wrap (PlainError ''ping timed out'')) \<and>
   fst (Connect both_fail_env sample_cfg empty_world) =
     Err (NewAggregate
            [WrapMsg (Wrap (PlainError ''connection refused'')) ''failed direct dial to auth server: %v'',
             WrapMsg (Wrap (PlainError ''ping timed out''))
               ''failed dial to auth server through reverse tunnel: %v'']) \<and>
   causes (NewAggregate
            [WrapMsg (Wrap (PlainError ''connection refused'')) ''failed direct dial to auth server: %v'',
             WrapMsg (Wrap (PlainError ''ping timed out''))
               ''failed dial to auth server through reverse tunnel: %v''])
     = [PlainError ''connection refused'', PlainError ''ping timed out'']"
proof -
  let ?w0 = "record_call (CallDebugf (AuthServers sample_cfg)) empty_world"
  let ?w1 = "snd (connectViaAuthDirect both_fail_env sample_cfg ?w0)"
  let ?w2 = "snd (connectViaProxyTunnel both_fail_env sample_cfg ?w1)"
  have a: "SSH sample_cfg \<noteq> None" by (simp add: auth_samples)
  have b': "fst (connectViaAuthDirect both_fail_env sample_cfg ?w0)
             = Err (Wrap (PlainError ''connection refused''))"
    by (simp add: auth_samples connect_defs)
  have b: "connectViaAuthDirect both_fail_env sample_cfg ?w0
             = (Err (Wrap (PlainError ''connection refused'')), ?w1)"
    using b' by (metis prod.collapse)
  have c': "fst (connectViaProxyTunnel both_fail_env sample_cfg ?w1)
             = Err (Wrap (PlainError ''ping timed out''))"
    by (simp add: auth_samples connect_defs Let_def)
  have c: "connectViaProxyTunnel both_fail_env sample_cfg ?w1
             = (Err (Wrap (PlainError ''ping timed out'')), ?w2)"
    using c' by (metis prod.collapse)
  have d: "causes (NewAggregate
            [WrapMsg (Wrap (PlainError ''connection refused'')) ''failed direct dial to auth server: %v'',
             WrapMsg (Wrap (PlainError ''ping timed out''))
               ''failed dial to auth server through reverse tunnel: %v''])
     = [PlainError ''connection refused'', PlainError ''ping timed out'']"
    by (simp add: NewAggregate_def WrapMsg_def Wrap_def)
  from Connect_aggregates_both_failures [OF a b c] have
    "fst (Connect both_fail_env sample_cfg empty_world) =
     Err (NewAggregate
            [WrapMsg (Wrap (PlainError ''connection refused'')) ''failed direct dial to auth server: %v'',
             WrapMsg (Wrap (PlainError ''ping timed out''))
               ''failed dial to auth server through reverse tunnel: %v''])"
    by simp
  with a b' c' d show ?thesis by blast
qed

text \<open>
  C6. Without SSH credentials, when the direct attempt returns an error, \<^verbatim>\<open>Connect\<close> returns
  that error under the message of the direct dial, in the world the direct attempt left:
  no call of the tunnel path is made.
\<close>

theorem Connect_without_ssh:
  assumes "SSH cfg = None"
    and "connectViaAuthDirect env cfg (record_call (CallDebugf (AuthServers cfg)) w) = (Err e1, w1)"
  shows "Connect env cfg w = (Err (Wrap (WrapMsg e1 ''failed direct dial to auth server: %v'')), w1) \<and>
         causes (Wrap (WrapMsg e1 ''failed direct dial to auth server: %v'')) = causes e1 \<and>
         filter is_tunnel_call (calls w1) = filter is_tunnel_call (calls w)"
proof -
  from direct_no_tunnel_calls [of env cfg "record_call (CallDebugf (AuthServers cfg)) w"] assms(2)
  obtain new where "calls w1 = calls w @ CallDebugf (AuthServers cfg) # new"
    and "\<not> list_ex is_tunnel_call new"
    by (auto simp: record_call_def)
  then have "filter is_tunnel_call (calls w1) = filter is_tunnel_call (calls w)"
    by (simp add: list_ex_iff)
  with assms show ?thesis by (simp add: Connect_def Wrap_def WrapMsg_def)
qed

theorem Connect_without_ssh_witness:
  "SSH no_ssh_cfg = None \<and>
   fst (connectViaAuthDirect both_fail_env no_ssh_cfg
          (record_call (CallDebugf (AuthServers no_ssh_cfg)) empty_world))
     = Err (Wrap (PlainError ''connection refused'')) \<and>
   Connect both_fail_env no_ssh_cfg empty_world =
     (Err (Wrap (WrapMsg (Wrap (PlainError ''connection refused''))
                   ''failed direct dial to auth server: %v'')),
      \<lparr>open_clients = [],
       calls = [CallDebugf (AuthServers no_ssh_cfg), CallNewClient (direct_api_Config no_ssh_cfg)]\<rparr>)"
proof -
  let ?w0 = "record_call (CallDebugf (AuthServers no_ssh_cfg)) empty_world"
  let ?w1 = "snd (connectViaAuthDirect both_fail_env no_ssh_cfg ?w0)"
  have a: "SSH no_ssh_cfg = None" by (simp add: auth_samples)
  have b': "fst (connectViaAuthDirect both_fail_env no_ssh_cfg ?w0)
             = Err (Wrap (PlainError ''connection refused''))"
    by (simp add: auth_samples connect_defs)
  have b: "connectViaAuthDirect both_fail_env no_ssh_cfg ?w0
             = (Err (Wrap (PlainError ''connection refused'')), ?w1)"
    using b' by (metis prod.collapse)
  have c: "?w1 = \<lparr>open_clients = [],
       calls = [CallDebugf (AuthServers no_ssh_cfg), CallNewClient (direct_api_Config no_ssh_cfg)]\<rparr>"
    by (simp add: auth_samples connect_defs)
  from Connect_without_ssh [OF a b] have
    "Connect both_fail_env no_ssh_cfg empty_world =
       (Err (Wrap (WrapMsg (Wrap (PlainError ''connection refused''))
                   ''failed direct dial to auth server: %v'')), ?w1)"
    by simp
  with a b' c show ?thesis by simp
qed

text \<open>
  C9. When the direct client is built and answers the probe, \<^verbatim>\<open>Connect\<close> returns it after
  exactly three calls, the log line, \<^verbatim>\<open>auth.NewClient\<close> with the direct configuration and
  \<^verbatim>\<open>Ping\<close>, none of which belongs to the tunnel path.
\<close>

theorem Connect_direct_success:
  assumes "auth_NewClient env (direct_api_Config cfg) = Inr c" and "client_Ping env c = None"
  shows "Connect env cfg w =
           (Ok c, w\<lparr>open_clients := c # open_clients w,
                    calls := calls w @ [CallDebugf (AuthServers cfg),
                                        CallNewClient (direct_api_Config cfg), CallPing c]\<rparr>) \<and>
         \<not> list_ex is_tunnel_call
             [CallDebugf (AuthServers cfg), CallNewClient (direct_api_Config cfg), CallPing c]"
  using assms
  by (simp add: Connect_def connectViaAuthDirect_cases record_call_def direct_api_Config_def)

theorem Connect_direct_success_witness:
  "auth_NewClient direct_ok_env (direct_api_Config sample_cfg) = Inr 1 \<and>
   client_Ping direct_ok_env 1 = None \<and>
   Connect direct_ok_env sample_cfg empty_world =
     (Ok 1, \<lparr>open_clients = [1],
             calls = [CallDebugf (AuthServers sample_cfg),
                      CallNewClient (direct_api_Config sample_cfg), CallPing 1]\<rparr>)"
proof -
  have a: "auth_NewClient direct_ok_env (direct_api_Config sample_cfg) = Inr 1"
    by (simp add: auth_samples direct_api_Config_def)
  have b: "client_Ping direct_ok_env 1 = None"
    by (simp add: auth_samples)
  from Connect_direct_success [OF a b, of empty_world] a b show ?thesis
    by (simp add: empty_world_def)
qed

text \<open>
  C10. With an empty address list and SSH credentials present, when the direct attempt
  returns an error, the tunnel fallback reads \<^verbatim>\<open>cfg.AuthServers[0]\<close> out of range:
  \<^verbatim>\<open>Connect\<close> panics, and returns neither an error value nor a client.
\<close>

theorem Connect_empty_address_list_panics:
  assumes "AuthServers cfg = []" and "SSH cfg \<noteq> None"
    and "connectViaAuthDirect env cfg (record_call (CallDebugf (AuthServers cfg)) w) = (Err e1, w1)"
  shows "Connect env cfg w = (Panic ''index out of range [0] with length 0'', w1) \<and>
         (\<forall>e. fst (Connect env cfg w) \<noteq> Err e) \<and> (\<forall>c. fst (Connect env cfg w) \<noteq> Ok c)"
  using assms by (auto simp: Connect_def connectViaProxyTunnel_def)

theorem Connect_empty_address_list_panics_witness:
  "AuthServers no_addrs_cfg = [] \<and> SSH no_addrs_cfg \<noteq> None \<and>
   fst (connectViaAuthDirect both_fail_env no_addrs_cfg
          (record_call (CallDebugf (AuthServers no_addrs_cfg)) empty_world))
     = Err (Wrap (PlainError ''connection refused'')) \<and>
   fst (Connect both_fail_env no_addrs_cfg empty_world) = Panic ''index out of range [0] with length 0''"
proof -
  let ?w0 = "record_call (CallDebugf (AuthServers no_addrs_cfg)) empty_world"
  let ?w1 = "snd (connectViaAuthDirect both_fail_env no_addrs_cfg ?w0)"
  have a: "AuthServers no_addrs_cfg = []" by (simp add: auth_samples)
  have b: "SSH no_addrs_cfg \<noteq> None" by (simp add: auth_samples)
  have c': "fst (connectViaAuthDirect both_fail_env no_addrs_cfg ?w0)
             = Err (Wrap (PlainError ''connection refused''))"
    by (simp add: auth_samples connect_defs)
  have c: "connectViaAuthDirect both_fail_env no_addrs_cfg ?w0
             = (Err (Wrap (PlainError ''connection refused'')), ?w1)"
    using c' by (metis prod.collapse)
  from Connect_empty_address_list_panics [OF a b c] have
    "fst (Connect both_fail_env no_addrs_cfg empty_world) = Panic ''index out of range [0] with length 0''"
    by simp
  with a b c' show ?thesis by blast
qed

section \<open>Properties of the disconnect expiry\<close>

text \<open>
  C8. The effective expiry is the zero time when expiry-disconnect, as adjusted by the
  access checker, is off; otherwise it is the previous identity's expiry when the identity
  is MFA-verified and that expiry is set, and the certificate's expiry in every other
  case. The three rows of \<^verbatim>\<open>TestGetDisconnectExpiredCertFromIdentity\<close> are instances.
\<close>

theorem GetDisconnectExpiredCertFromIdentity_cases:
  "(\<not> AdjustDisconnectExpiredCert checker (GetDisconnectExpiredCert authPref) \<longrightarrow>
      GetDisconnectExpiredCertFromIdentity checker authPref identity = zero_time) \<and>
   (AdjustDisconnectExpiredCert checker (GetDisconnectExpiredCert authPref) \<longrightarrow>
      MFAVerified identity \<noteq> [] \<longrightarrow> PreviousIdentityExpires identity \<noteq> zero_time \<longrightarrow>
      GetDisconnectExpiredCertFromIdentity checker authPref identity
        = PreviousIdentityExpires identity) \<and>
   (AdjustDisconnectExpiredCert checker (GetDisconnectExpiredCert authPref) \<longrightarrow>
      MFAVerified identity = [] \<or> PreviousIdentityExpires identity = zero_time \<longrightarrow>
      GetDisconnectExpiredCertFromIdentity checker authPref identity = Expires identity)"
  by (auto simp: GetDisconnectExpiredCertFromIdentity_def)

theorem GetDisconnectExpiredCertFromIdentity_cases_witness:
  "GetDisconnectExpiredCertFromIdentity mockChecker (mockAuthPreference True)
     (test_identity test_now test_inAnHour True) = test_inAnHour \<and>
   GetDisconnectExpiredCertFromIdentity mockChecker (mockAuthPreference True)
     (test_identity test_now zero_time False) = test_now \<and>
   GetDisconnectExpiredCertFromIdentity mockChecker (mockAuthPreference False)
     (test_identity test_now test_inAnHour True) = zero_time"
  using GetDisconnectExpiredCertFromIdentity_cases
          [of mockChecker "mockAuthPreference True" "test_identity test_now test_inAnHour True"]
        GetDisconnectExpiredCertFromIdentity_cases
          [of mockChecker "mockAuthPreference True" "test_identity test_now zero_time False"]
        GetDisconnectExpiredCertFromIdentity_cases
          [of mockChecker "mockAuthPreference False" "test_identity test_now test_inAnHour True"]
  by (simp add: mockChecker_def mockAuthPreference_def test_identity_def test_now_def
        test_inAnHour_def zero_time_def)

end
